theory Spec2Isabelle
  imports Main "HOL-Library.Word"
begin

section \<open>The FusionAuth webhook receiver (fusionauth/assets/webhook-handler.ts)\<close>

text \<open>
  The receiver is an Express route: it checks an HMAC-SHA256 signature over the raw request
  body, parses the body as JSON, answers, and then hands the event to one handler chosen by
  the event's type. The embedding keeps the order of the source. What the source takes from
  Node and from the language (the HMAC primitive, \<open>JSON.parse\<close>, the printing of numbers)
  is a parameter; what the source writes itself is a definition.
\<close>

subsection \<open>Strings, buffers and exceptions\<close>

text \<open>
  A JavaScript string is a sequence of 16-bit code units, a \<open>Buffer\<close> a sequence of bytes.
  \<open>lit\<close> writes a string literal of the source.
\<close>

type_synonym byte = "8 word"
type_synonym jschar = "16 word"
type_synonym jsstring = "jschar list"

definition lit :: "string \<Rightarrow> jsstring" where
  "lit s = map (\<lambda>c. of_nat (of_char c)) s"

datatype exn = TypeError | RangeError | SyntaxError | Error jsstring

definition byte_of :: "nat \<Rightarrow> byte" where
  "byte_of n = of_nat n"

text \<open>
  \<open>Buffer.from(string)\<close> encodes the string as UTF-8: one byte below U+0080, two below
  U+0800, three for the rest of the basic plane, four for a surrogate pair; a surrogate that
  is not part of a pair is replaced by U+FFFD (bytes EF BF BD).
\<close>

definition utf8_2 :: "nat \<Rightarrow> byte list" where
  "utf8_2 n = [byte_of (192 + n div 64), byte_of (128 + n mod 64)]"

definition utf8_3 :: "nat \<Rightarrow> byte list" where
  "utf8_3 n = [byte_of (224 + n div 4096), byte_of (128 + (n div 64) mod 64),
               byte_of (128 + n mod 64)]"

definition utf8_4 :: "nat \<Rightarrow> byte list" where
  "utf8_4 n = [byte_of (240 + n div 262144), byte_of (128 + (n div 4096) mod 64),
               byte_of (128 + (n div 64) mod 64), byte_of (128 + n mod 64)]"

definition is_high_surrogate :: "nat \<Rightarrow> bool" where
  "is_high_surrogate n \<longleftrightarrow> 55296 \<le> n \<and> n < 56320"

definition is_low_surrogate :: "nat \<Rightarrow> bool" where
  "is_low_surrogate n \<longleftrightarrow> 56320 \<le> n \<and> n < 57344"

fun Buffer_from :: "jsstring \<Rightarrow> byte list" where
  "Buffer_from [] = []"
| "Buffer_from [c] =
     (let n = unat c in
      if n < 128 then [byte_of n]
      else if n < 2048 then utf8_2 n
      else if is_high_surrogate n \<or> is_low_surrogate n then utf8_3 65533
      else utf8_3 n)"
| "Buffer_from (c # d # cs) =
     (let n = unat c; m = unat d in
      if n < 128 then byte_of n # Buffer_from (d # cs)
      else if n < 2048 then utf8_2 n @ Buffer_from (d # cs)
      else if is_high_surrogate n \<and> is_low_surrogate m
        then utf8_4 (65536 + (n - 55296) * 1024 + (m - 56320)) @ Buffer_from cs
      else if is_high_surrogate n \<or> is_low_surrogate n then utf8_3 65533 @ Buffer_from (d # cs)
      else utf8_3 n @ Buffer_from (d # cs))"

text \<open>\<open>digest('hex')\<close>: two lowercase hexadecimal digits for each byte.\<close>

definition hex_digit :: "nat \<Rightarrow> jschar" where
  "hex_digit n = (if n < 10 then of_nat (48 + n) else of_nat (87 + n))"

fun hex :: "byte list \<Rightarrow> jsstring" where
  "hex [] = []"
| "hex (b # bs) = hex_digit (unat b div 16) # hex_digit (unat b mod 16) # hex bs"

text \<open>
  \<open>crypto.timingSafeEqual(a, b)\<close> throws a RangeError when the two buffers differ in
  length, and otherwise says whether they hold the same bytes.
\<close>

definition timingSafeEqual :: "byte list \<Rightarrow> byte list \<Rightarrow> exn + bool" where
  "timingSafeEqual a b = (if length a \<noteq> length b then Inl RangeError else Inr (a = b))"

subsection \<open>Values produced by JSON.parse\<close>

text \<open>
  A number is kept as the 64 bits of its IEEE-754 double. \<open>Undefined\<close> is what reading a
  property that is not there gives; \<open>JSON.parse\<close> itself never returns it.
\<close>

datatype jsval =
    Undefined
  | Null
  | Bool bool
  | Num "64 word"
  | Str jsstring
  | Arr "jsval list"
  | Obj "(jsstring \<times> jsval) list"

text \<open>
  The platform: \<open>createHmac secret body\<close> is
  \<open>crypto.createHmac('sha256', secret).update(body).digest()\<close>, the raw digest, or the
  exception that one of the three calls throws; \<open>JSON_parse body\<close> is
  \<open>JSON.parse(body.toString('utf-8'))\<close>; \<open>Number_toString\<close> prints a double.
\<close>

record platform =
  createHmac :: "jsstring \<Rightarrow> byte list \<Rightarrow> exn + byte list"
  JSON_parse :: "byte list \<Rightarrow> exn + jsval"
  Number_toString :: "64 word \<Rightarrow> jsstring"

subsection \<open>Signature verification\<close>

text \<open>The body of the \<open>try\<close> block of \<open>verifyWebhookSignature\<close>.\<close>

definition verify_try :: "platform \<Rightarrow> byte list \<Rightarrow> jsstring \<Rightarrow> jsstring \<Rightarrow> exn + bool" where
  "verify_try pf rawBody signatureHeader secret =
     (case createHmac pf secret rawBody of
        Inl e \<Rightarrow> Inl e
      | Inr digest \<Rightarrow>
          (let expected = lit ''sha256='' @ hex digest;
               a = Buffer_from signatureHeader;
               b = Buffer_from expected
           in if length a \<noteq> length b then Inr False else timingSafeEqual a b))"

text \<open>\<open>try { ... } catch { return false }\<close>\<close>

definition verifyWebhookSignature ::
  "platform \<Rightarrow> byte list \<Rightarrow> jsstring \<Rightarrow> jsstring \<Rightarrow> exn + bool" where
  "verifyWebhookSignature pf rawBody signatureHeader secret =
     (case verify_try pf rawBody signatureHeader secret of
        Inl e \<Rightarrow> Inr False
      | Inr r \<Rightarrow> Inr r)"

subsection \<open>Property access, truthiness and string conversion\<close>

definition nullish :: "jsval \<Rightarrow> bool" where
  "nullish v \<longleftrightarrow> v = Undefined \<or> v = Null"

text \<open>
  \<open>getProp v k\<close> reads the property \<open>k\<close> of a value that is neither \<open>undefined\<close> nor
  \<open>null\<close>: the own property of an object, \<open>undefined\<close> where there is none. It serves the
  keys the source reads (\<open>event\<close>, \<open>type\<close>, \<open>id\<close>, \<open>user\<close>, \<open>email\<close>, ...), none of which
  is inherited from a prototype. An object holds each key once.
\<close>

fun getProp :: "jsval \<Rightarrow> string \<Rightarrow> jsval" where
  "getProp (Obj kvs) k = (case map_of kvs (lit k) of None \<Rightarrow> Undefined | Some v \<Rightarrow> v)"
| "getProp v k = Undefined"

text \<open>\<open>v.k\<close> throws a TypeError on \<open>undefined\<close> and \<open>null\<close>; \<open>v?.k\<close> gives \<open>undefined\<close>.\<close>

definition dot :: "jsval \<Rightarrow> string \<Rightarrow> exn + jsval" where
  "dot v k = (if nullish v then Inl TypeError else Inr (getProp v k))"

definition opt_dot :: "jsval \<Rightarrow> string \<Rightarrow> jsval" where
  "opt_dot v k = (if nullish v then Undefined else getProp v k)"

definition dot_e :: "exn + jsval \<Rightarrow> string \<Rightarrow> exn + jsval" where
  "dot_e r k = (case r of Inl e \<Rightarrow> Inl e | Inr v \<Rightarrow> dot v k)"

definition coalesce :: "jsval \<Rightarrow> jsval \<Rightarrow> jsval" where
  "coalesce v d = (if nullish v then d else v)"

definition is_zero :: "64 word \<Rightarrow> bool" where
  "is_zero w \<longleftrightarrow> take_bit 63 w = 0"

definition is_NaN :: "64 word \<Rightarrow> bool" where
  "is_NaN w \<longleftrightarrow> take_bit 11 (drop_bit 52 w) = 2047 \<and> take_bit 52 w \<noteq> 0"

fun truthy :: "jsval \<Rightarrow> bool" where
  "truthy Undefined = False"
| "truthy Null = False"
| "truthy (Bool b) = b"
| "truthy (Num w) = (\<not> is_zero w \<and> \<not> is_NaN w)"
| "truthy (Str s) = (s \<noteq> [])"
| "truthy (Arr xs) = True"
| "truthy (Obj kvs) = True"

definition truthy_string :: "jsstring option \<Rightarrow> bool" where
  "truthy_string v = (case v of None \<Rightarrow> False | Some s \<Rightarrow> s \<noteq> [])"

fun join_with :: "jsstring \<Rightarrow> jsstring list \<Rightarrow> jsstring" where
  "join_with sep [] = []"
| "join_with sep [s] = s"
| "join_with sep (s # t # ss) = s @ sep @ join_with sep (t # ss)"

fun first_error :: "(exn + 'a) list \<Rightarrow> exn + 'a list" where
  "first_error [] = Inr []"
| "first_error (Inl e # rs) = Inl e"
| "first_error (Inr x # rs) = (case first_error rs of Inl e \<Rightarrow> Inl e | Inr xs \<Rightarrow> Inr (x # xs))"

text \<open>
  The string conversion of a template literal, on the values \<open>JSON.parse\<close> builds. An array
  joins its elements with a comma, \<open>undefined\<close> and \<open>null\<close> elements as empty strings. An
  object prints as \<open>[object Object]\<close> through the inherited \<open>toString\<close>; an own property
  \<open>toString\<close> hides that method and, being data, cannot be called, so the conversion throws
  a TypeError.
\<close>

fun ToString :: "platform \<Rightarrow> jsval \<Rightarrow> exn + jsstring" where
  "ToString pf Undefined = Inr (lit ''undefined'')"
| "ToString pf Null = Inr (lit ''null'')"
| "ToString pf (Bool b) = Inr (if b then lit ''true'' else lit ''false'')"
| "ToString pf (Num w) = Inr (Number_toString pf w)"
| "ToString pf (Str s) = Inr s"
| "ToString pf (Arr xs) =
     (case first_error (map (\<lambda>x. if nullish x then Inr [] else ToString pf x) xs) of
        Inl e \<Rightarrow> Inl e
      | Inr ss \<Rightarrow> Inr (join_with (lit '','') ss))"
| "ToString pf (Obj kvs) =
     (if lit ''toString'' \<in> fst ` set kvs then Inl TypeError else Inr (lit ''[object Object]''))"

text \<open>
  A template literal: literal text and substitutions, converted from left to right. A
  substitution is an expression that may itself throw (a property read on \<open>undefined\<close>).
\<close>

datatype part = Text jsstring | Subst "exn + jsval"

fun template :: "platform \<Rightarrow> part list \<Rightarrow> exn + jsstring" where
  "template pf [] = Inr []"
| "template pf (Text s # ps) =
     (case template pf ps of Inl e \<Rightarrow> Inl e | Inr r \<Rightarrow> Inr (s @ r))"
| "template pf (Subst (Inl e) # ps) = Inl e"
| "template pf (Subst (Inr v) # ps) =
     (case ToString pf v of
        Inl e \<Rightarrow> Inl e
      | Inr s \<Rightarrow> (case template pf ps of Inl e \<Rightarrow> Inl e | Inr r \<Rightarrow> Inr (s @ r)))"

text \<open>\<open>roles.join(', ')\<close>: only an array has a \<open>join\<close> method.\<close>

definition call_join :: "platform \<Rightarrow> exn + jsval \<Rightarrow> jsstring \<Rightarrow> exn + jsval" where
  "call_join pf r sep =
     (case r of
        Inl e \<Rightarrow> Inl e
      | Inr (Arr xs) \<Rightarrow>
          (case first_error (map (\<lambda>x. if nullish x then Inr [] else ToString pf x) xs) of
             Inl e \<Rightarrow> Inl e
           | Inr ss \<Rightarrow> Inr (Str (join_with sep ss)))
      | Inr _ \<Rightarrow> Inl TypeError)"

subsection \<open>Effects\<close>

text \<open>
  What a run does, in order: lines written to the console, the response sent, and the
  handlers entered. An \<open>async\<close> function ends resolved (\<open>Inr ()\<close>) or rejected (\<open>Inl e\<close>).
\<close>

datatype level = LogL | WarnL | ErrorL

datatype handler =
    OnUserCreate | OnUserUpdate | OnUserDelete | OnLoginSuccess | OnLoginFailed
  | OnRegistrationCreate | OnRefreshTokenRevoke | OnPasswordBreach | OnPasswordReset

datatype effect =
    Console level jsstring
  | ConsoleErr jsstring exn
  | Json nat jsval
  | SendStatus nat
  | Invoked handler jsval

type_synonym console_line = "level \<times> jsstring"
type_synonym handlers = "handler \<Rightarrow> jsval \<Rightarrow> console_line list \<times> (exn + unit)"

text \<open>\<open>console.log\<close> or \<open>console.warn\<close> of one template literal, as the whole body of a handler.\<close>

definition console :: "platform \<Rightarrow> level \<Rightarrow> part list \<Rightarrow> console_line list \<times> (exn + unit)" where
  "console pf lv ps =
     (case template pf ps of Inl e \<Rightarrow> ([], Inl e) | Inr msg \<Rightarrow> ([(lv, msg)], Inr ()))"

subsection \<open>Event handlers\<close>

text \<open>
  The handlers of the source are placeholders ("Replace these with your real application
  logic"): each reads a few fields of the event and writes one line. The dispatcher and
  the route below take the handlers as a parameter, so what is proved about them holds for
  any application logic; \<open>template_handlers\<close> are the ones of the source.
\<close>

definition onUserCreate :: "platform \<Rightarrow> jsval \<Rightarrow> console_line list \<times> (exn + unit)" where
  "onUserCreate pf event =
     (let user = dot event ''user'' in
      console pf LogL
        [Text (lit ''[fusionauth] New user registered: ''), Subst (dot_e user ''email''),
         Text (lit '' (''), Subst (dot_e user ''id''), Text (lit '')'')])"

definition onUserDelete :: "platform \<Rightarrow> jsval \<Rightarrow> console_line list \<times> (exn + unit)" where
  "onUserDelete pf event =
     (let user = dot event ''user'' in
      console pf LogL
        [Text (lit ''[fusionauth] User deleted: ''), Subst (dot_e user ''email''),
         Text (lit '' (''), Subst (dot_e user ''id''), Text (lit '')'')])"

definition onUserUpdate :: "platform \<Rightarrow> jsval \<Rightarrow> console_line list \<times> (exn + unit)" where
  "onUserUpdate pf event =
     (let user = dot event ''user'' in
      console pf LogL [Text (lit ''[fusionauth] User updated: ''), Subst (dot_e user ''id'')])"

definition ipAddress_or_unknown :: "jsval \<Rightarrow> exn + jsval" where
  "ipAddress_or_unknown event =
     (case dot event ''info'' of
        Inl e \<Rightarrow> Inl e
      | Inr info \<Rightarrow> Inr (coalesce (opt_dot info ''ipAddress'') (Str (lit ''unknown''))))"

definition onLoginSuccess :: "platform \<Rightarrow> jsval \<Rightarrow> console_line list \<times> (exn + unit)" where
  "onLoginSuccess pf event =
     (let user = dot event ''user'' in
      console pf LogL
        [Text (lit ''[fusionauth] Login success: ''), Subst (dot_e user ''email''),
         Text (lit '' from ''), Subst (ipAddress_or_unknown event)])"

text \<open>The dash of this message is U+2014.\<close>

definition onLoginFailed :: "platform \<Rightarrow> jsval \<Rightarrow> console_line list \<times> (exn + unit)" where
  "onLoginFailed pf event =
     console pf WarnL
       [Text (lit ''[fusionauth] Login failed: ''), Subst (dot event ''loginId''),
        Text (lit '' from ''), Subst (ipAddress_or_unknown event),
        Text (lit '' '' @ [8212] @ lit '' reason: ''), Subst (dot event ''reason'')]"

definition onRegistrationCreate :: "platform \<Rightarrow> jsval \<Rightarrow> console_line list \<times> (exn + unit)" where
  "onRegistrationCreate pf event =
     (let user = dot event ''user''; reg = dot event ''registration'' in
      console pf LogL
        [Text (lit ''[fusionauth] User ''), Subst (dot_e user ''id''),
         Text (lit '' registered to app ''), Subst (dot_e reg ''applicationId''),
         Text (lit '' with roles: ''), Subst (call_join pf (dot_e reg ''roles'') (lit '', ''))])"

definition onRefreshTokenRevoke :: "platform \<Rightarrow> jsval \<Rightarrow> console_line list \<times> (exn + unit)" where
  "onRefreshTokenRevoke pf event =
     (let userId = dot event ''userId'' in
      console pf LogL [Text (lit ''[fusionauth] All refresh tokens revoked for user: ''), Subst userId])"

definition onPasswordBreach :: "platform \<Rightarrow> jsval \<Rightarrow> console_line list \<times> (exn + unit)" where
  "onPasswordBreach pf event =
     (let user = dot event ''user'' in
      console pf WarnL
        [Text (lit ''[fusionauth] BREACH DETECTED for user: ''), Subst (dot_e user ''email''),
         Text (lit '' (''), Subst (dot_e user ''id''), Text (lit '')'')])"

definition onPasswordReset :: "platform \<Rightarrow> jsval \<Rightarrow> console_line list \<times> (exn + unit)" where
  "onPasswordReset pf event =
     (let user = dot event ''user'' in
      console pf LogL
        [Text (lit ''[fusionauth] Password reset completed for: ''), Subst (dot_e user ''email'')])"

fun template_handlers :: "platform \<Rightarrow> handlers" where
  "template_handlers pf OnUserCreate = onUserCreate pf"
| "template_handlers pf OnUserUpdate = onUserUpdate pf"
| "template_handlers pf OnUserDelete = onUserDelete pf"
| "template_handlers pf OnLoginSuccess = onLoginSuccess pf"
| "template_handlers pf OnLoginFailed = onLoginFailed pf"
| "template_handlers pf OnRegistrationCreate = onRegistrationCreate pf"
| "template_handlers pf OnRefreshTokenRevoke = onRefreshTokenRevoke pf"
| "template_handlers pf OnPasswordBreach = onPasswordBreach pf"
| "template_handlers pf OnPasswordReset = onPasswordReset pf"

subsection \<open>The event router\<close>

definition invoke :: "handlers \<Rightarrow> handler \<Rightarrow> jsval \<Rightarrow> effect list \<times> (exn + unit)" where
  "invoke hs h event =
     (case hs h event of (out, r) \<Rightarrow> (Invoked h event # map (\<lambda>(lv, msg). Console lv msg) out, r))"

text \<open>The \<open>default\<close> branch of the switch: one line on the console, no handler.\<close>

definition unhandled :: "platform \<Rightarrow> jsval \<Rightarrow> effect list \<times> (exn + unit)" where
  "unhandled pf event =
     (case console pf LogL
             [Text (lit ''[fusionauth] Unhandled event type: ''), Subst (dot event ''type''),
              Text (lit '' (id: ''), Subst (dot event ''id''), Text (lit '')'')] of
        (out, r) \<Rightarrow> (map (\<lambda>(lv, msg). Console lv msg) out, r))"

text \<open>The switch compares with \<open>===\<close>: only a string equal to the label matches.\<close>

definition dispatchEvent :: "platform \<Rightarrow> handlers \<Rightarrow> jsval \<Rightarrow> effect list \<times> (exn + unit)" where
  "dispatchEvent pf hs event =
     (case dot event ''type'' of
        Inl e \<Rightarrow> ([], Inl e)
      | Inr t \<Rightarrow>
          if t = Str (lit ''user.create'') then invoke hs OnUserCreate event
          else if t = Str (lit ''user.update'') then invoke hs OnUserUpdate event
          else if t = Str (lit ''user.delete'') \<or> t = Str (lit ''user.deactivate'')
            then invoke hs OnUserDelete event
          else if t = Str (lit ''user.login.success'') then invoke hs OnLoginSuccess event
          else if t = Str (lit ''user.login.failed'') then invoke hs OnLoginFailed event
          else if t = Str (lit ''user.registration.create'')
            then invoke hs OnRegistrationCreate event
          else if t = Str (lit ''jwt.refresh-token.revoke'')
            then invoke hs OnRefreshTokenRevoke event
          else if t = Str (lit ''user.password.breach'') then invoke hs OnPasswordBreach event
          else if t = Str (lit ''user.password.reset.success'')
            then invoke hs OnPasswordReset event
          else unhandled pf event)"

subsection \<open>The Express route\<close>

text \<open>
  A request as the route reads it: the value of the \<open>x-fusionauth-signature\<close> header, if
  the header is there, and the raw body. The route sits behind
  \<open>raw({ type: 'application/json' })\<close> and reads \<open>req.body as Buffer\<close>: the model covers
  the requests whose body that middleware collected into a Buffer.
\<close>

record request =
  signature :: "jsstring option"
  body :: "byte list"

definition error_body :: "string \<Rightarrow> jsval" where
  "error_body msg = Obj [(lit ''error'', Str (lit msg))]"

definition missing_signature :: "effect list \<times> (exn + unit)" where
  "missing_signature =
     ([Console WarnL (lit ''[fusionauth] Webhook received without signature header''),
       Json 401 (error_body ''Missing signature'')], Inr ())"

definition invalid_signature :: "effect list \<times> (exn + unit)" where
  "invalid_signature =
     ([Console WarnL (lit ''[fusionauth] Webhook signature verification failed''),
       Json 401 (error_body ''Invalid signature'')], Inr ())"

text \<open>
  Step 1, "Verify signature (skip if webhook signing is not configured)": \<open>Some r\<close> is an
  early return of the route with outcome \<open>r\<close>, \<open>None\<close> goes on to step 2. The secret is
  \<open>process.env.FUSIONAUTH_WEBHOOK_SECRET\<close>; \<open>if (webhookSecret)\<close> and \<open>if (!signature)\<close>
  are truthiness tests, so the empty string counts as absent in both.
\<close>

definition verify_step ::
  "platform \<Rightarrow> jsstring option \<Rightarrow> request \<Rightarrow> (effect list \<times> (exn + unit)) option" where
  "verify_step pf webhookSecret req =
     (case webhookSecret of
        None \<Rightarrow> None
      | Some secret \<Rightarrow>
          if secret = [] then None
          else (case signature req of
                  None \<Rightarrow> Some missing_signature
                | Some sg \<Rightarrow>
                    if sg = [] then Some missing_signature
                    else (case verifyWebhookSignature pf (body req) sg secret of
                            Inl e \<Rightarrow> Some ([], Inl e)
                          | Inr ok \<Rightarrow> if \<not> ok then Some invalid_signature else None)))"

text \<open>
  Step 3: \<open>res.sendStatus(200)\<close>, then \<open>await dispatchEvent(event)\<close> inside \<open>try\<close>; the
  \<open>catch\<close> writes the error to the console, with the event type in a template literal.
\<close>

definition ack_and_dispatch :: "platform \<Rightarrow> handlers \<Rightarrow> jsval \<Rightarrow> effect list \<times> (exn + unit)" where
  "ack_and_dispatch pf hs event =
     (case dispatchEvent pf hs event of
        (tr, Inr u) \<Rightarrow> (SendStatus 200 # tr, Inr ())
      | (tr, Inl err) \<Rightarrow>
          (case template pf [Text (lit ''[fusionauth] Error handling event ''),
                             Subst (dot event ''type''), Text (lit '':'')] of
             Inl e \<Rightarrow> (SendStatus 200 # tr, Inl e)
           | Inr msg \<Rightarrow> (SendStatus 200 # tr @ [ConsoleErr msg err], Inr ())))"

text \<open>Step 2, parsing, and the check of \<open>event?.type\<close>.\<close>

definition parse_and_dispatch ::
  "platform \<Rightarrow> handlers \<Rightarrow> request \<Rightarrow> effect list \<times> (exn + unit)" where
  "parse_and_dispatch pf hs req =
     (case JSON_parse pf (body req) of
        Inl e \<Rightarrow> ([Json 400 (error_body ''Invalid JSON body'')], Inr ())
      | Inr payload \<Rightarrow>
          (let event = opt_dot payload ''event'' in
           if \<not> truthy (opt_dot event ''type'')
           then ([Json 400 (error_body ''Missing event.type'')], Inr ())
           else ack_and_dispatch pf hs event))"

definition fusionAuthWebhookRouter ::
  "platform \<Rightarrow> handlers \<Rightarrow> jsstring option \<Rightarrow> request \<Rightarrow> effect list \<times> (exn + unit)" where
  "fusionAuthWebhookRouter pf hs webhookSecret req =
     (case verify_step pf webhookSecret req of
        Some r \<Rightarrow> r
      | None \<Rightarrow> parse_and_dispatch pf hs req)"

subsection \<open>Reading a run\<close>

fun statuses :: "effect list \<Rightarrow> nat list" where
  "statuses [] = []"
| "statuses (Json n v # tr) = n # statuses tr"
| "statuses (SendStatus n # tr) = n # statuses tr"
| "statuses (x # tr) = statuses tr"

fun invocations :: "effect list \<Rightarrow> handler list" where
  "invocations [] = []"
| "invocations (Invoked h ev # tr) = h # invocations tr"
| "invocations (x # tr) = invocations tr"

text \<open>
  The two ways a request is turned away, as conditions on the request: the signature step
  answers 401 (it runs only when a secret is configured), and the body does not parse or
  carries no truthy \<open>event.type\<close>.
\<close>

definition signature_rejected :: "platform \<Rightarrow> jsstring option \<Rightarrow> request \<Rightarrow> bool" where
  "signature_rejected pf webhookSecret req \<longleftrightarrow>
     (case webhookSecret of
        None \<Rightarrow> False
      | Some secret \<Rightarrow>
          secret \<noteq> [] \<and>
          (case signature req of
             None \<Rightarrow> True
           | Some sg \<Rightarrow> sg = [] \<or> verifyWebhookSignature pf (body req) sg secret = Inr False))"

definition event_of :: "platform \<Rightarrow> request \<Rightarrow> jsval" where
  "event_of pf req =
     (case JSON_parse pf (body req) of Inl e \<Rightarrow> Undefined | Inr payload \<Rightarrow> opt_dot payload ''event'')"

definition malformed :: "platform \<Rightarrow> request \<Rightarrow> bool" where
  "malformed pf req \<longleftrightarrow>
     (case JSON_parse pf (body req) of
        Inl e \<Rightarrow> True
      | Inr payload \<Rightarrow> \<not> truthy (opt_dot (opt_dot payload ''event'') ''type''))"

text \<open>
  What the signature step tests once it runs with a secret: the header is missing (or the
  empty string), or the verifier returns false under that secret.
\<close>

definition signature_fails :: "platform \<Rightarrow> jsstring \<Rightarrow> request \<Rightarrow> bool" where
  "signature_fails pf secret req \<longleftrightarrow>
     (case signature req of
        None \<Rightarrow> True
      | Some sg \<Rightarrow> sg = [] \<or> verifyWebhookSignature pf (body req) sg secret = Inr False)"


text \<open>A string of code units below U+0080, as the expected signature string is.\<close>

definition ascii :: "jsstring \<Rightarrow> bool" where
  "ascii s \<longleftrightarrow> (\<forall>c\<in>set s. unat c < 128)"


subsection \<open>A platform for worked examples\<close>

text \<open>
  The theorems below hold for every platform. The examples run on this one: \<open>sample_hmac\<close>
  stands in for HMAC-SHA256 (a digest of two bytes that depends on the key and on the
  message), and \<open>sample_parse\<close> gives what \<open>JSON.parse\<close> gives on the bodies that the
  examples send and a SyntaxError on every other body.
\<close>

definition bytes :: "string \<Rightarrow> byte list" where
  "bytes s = map (\<lambda>c. byte_of (of_char c)) s"

definition sample_hmac :: "jsstring \<Rightarrow> byte list \<Rightarrow> exn + byte list" where
  "sample_hmac key msg = Inr [byte_of (length key), byte_of (length msg)]"

definition create_text :: string where
  \<open>create_text =
     ''{"event":{"type":"user.create","id":"e1","user":{"id":"u1","email":"a@b.com"}}}''\<close>

definition create_event :: jsval where
  "create_event =
     Obj [(lit ''type'', Str (lit ''user.create'')), (lit ''id'', Str (lit ''e1'')),
          (lit ''user'', Obj [(lit ''id'', Str (lit ''u1'')),
                              (lit ''email'', Str (lit ''a@b.com''))])]"

definition bare_create_event :: jsval where
  "bare_create_event =
     Obj [(lit ''type'', Str (lit ''user.create'')), (lit ''id'', Str (lit ''e2''))]"

definition deactivate_event :: jsval where
  "deactivate_event =
     Obj [(lit ''type'', Str (lit ''user.deactivate'')), (lit ''id'', Str (lit ''e4'')),
          (lit ''user'', Obj [(lit ''id'', Str (lit ''u1'')),
                              (lit ''email'', Str (lit ''a@b.com''))])]"

definition unprintable_id_event :: jsval where
  "unprintable_id_event =
     Obj [(lit ''type'', Str (lit ''x.unknown'')),
          (lit ''id'', Obj [(lit ''toString'', Null)])]"

definition unknown_event :: jsval where
  "unknown_event =
     Obj [(lit ''type'', Str (lit ''x.unknown'')), (lit ''id'', Str (lit ''e3''))]"

definition sample_parse :: "byte list \<Rightarrow> exn + jsval" where
  \<open>sample_parse bs =
     (if bs = bytes create_text then Inr (Obj [(lit ''event'', create_event)])
      else if bs = bytes ''{"event":{"type":"user.create","id":"e2"}}''
        then Inr (Obj [(lit ''event'', bare_create_event)])
      else if bs = bytes ''{"event":{"type":"x.unknown","id":"e3"}}''
        then Inr (Obj [(lit ''event'', unknown_event)])
      else if bs = bytes ''{"event":{"type":""}}''
        then Inr (Obj [(lit ''event'', Obj [(lit ''type'', Str [])])])
      else if bs = bytes ''{}'' then Inr (Obj [])
      else Inl SyntaxError)\<close>

definition sample_platform :: platform where
  "sample_platform =
     \<lparr>createHmac = sample_hmac, JSON_parse = sample_parse, Number_toString = (\<lambda>w. lit ''0'')\<rparr>"

text \<open>A platform whose HMAC primitive throws.\<close>

definition failing_platform :: platform where
  "failing_platform =
     \<lparr>createHmac = (\<lambda>key msg. Inl TypeError), JSON_parse = sample_parse,
      Number_toString = (\<lambda>w. lit ''0'')\<rparr>"

lemmas sample_defs =
  sample_platform_def failing_platform_def sample_parse_def sample_hmac_def bytes_def
  byte_of_def create_text_def create_event_def bare_create_event_def unknown_event_def
  deactivate_event_def unprintable_id_event_def lit_def

lemmas route_defs =
  fusionAuthWebhookRouter_def verify_step_def parse_and_dispatch_def ack_and_dispatch_def
  dispatchEvent_def unhandled_def invoke_def console_def dot_def dot_e_def opt_dot_def
  nullish_def error_body_def missing_signature_def invalid_signature_def

section \<open>Properties\<close>

subsection \<open>Encoding lemmas\<close>

lemma unat_byte_of: "n < 256 \<Longrightarrow> unat (byte_of n) = n"
  by (simp add: byte_of_def unat_of_nat)

lemma unat_jschar_less: "unat (c::jschar) < 65536"
  using unsigned_less [of c, where 'a = nat] by simp

lemma Buffer_from_head:
  "\<exists>b bs. Buffer_from (c # cs) = b # bs \<and> (unat b < 128 \<longleftrightarrow> unat c < 128) \<and>
     (unat c < 128 \<longrightarrow> b = byte_of (unat c) \<and> bs = Buffer_from cs)"
proof -
  have "unat c < 65536" by (rule unat_jschar_less)
  then have d: "unat c div 4096 < 16" "unat c < 2048 \<Longrightarrow> unat c div 64 < 32" by auto
  show ?thesis
    using d by (cases cs) (auto simp: Let_def utf8_2_def utf8_3_def utf8_4_def unat_byte_of
      is_high_surrogate_def is_low_surrogate_def)
qed

lemma byte_of_inj16:
  assumes "unat (c::jschar) < 128" "unat (d::jschar) < 128" "byte_of (unat c) = byte_of (unat d)"
  shows "c = d"
proof -
  have "unat c = unat (byte_of (unat c))"
    using assms(1) by (simp add: unat_byte_of)
  also have "\<dots> = unat (byte_of (unat d))"
    by (simp only: assms(3))
  also have "\<dots> = unat d"
    using assms(2) by (simp add: unat_byte_of)
  finally show ?thesis by (simp add: word_unat_eq_iff)
qed

lemma Buffer_from_ascii_eq:
  "ascii a \<Longrightarrow> Buffer_from h = Buffer_from a \<Longrightarrow> h = a"
proof (induction a arbitrary: h)
  case Nil
  show ?case
  proof (cases h)
    case (Cons c cs)
    then show ?thesis using Buffer_from_head [of c cs] Nil by auto
  qed simp
next
  case (Cons x xs)
  obtain b bs where a: "Buffer_from (x # xs) = b # bs" "unat b < 128" "b = byte_of (unat x)" "bs = Buffer_from xs"
    using Buffer_from_head [of x xs] Cons.prems(1) by (auto simp: ascii_def)
  show ?case
  proof (cases h)
    case Nil
    then show ?thesis using Cons.prems a by simp
  next
    case (Cons c cs)
    obtain b' bs' where h: "Buffer_from (c # cs) = b' # bs'" "unat b' < 128 \<longleftrightarrow> unat c < 128"
       "unat c < 128 \<longrightarrow> b' = byte_of (unat c) \<and> bs' = Buffer_from cs"
      using Buffer_from_head [of c cs] by blast
    have eq: "b' = b" "bs' = bs" using Cons.prems(2) a(1) h(1) Cons by simp_all
    then have c: "unat c < 128" using h(2) a(2) by simp
    have "c = x" using byte_of_inj16 [of c x] c h(3) a(3) eq Cons.prems(1) by (simp add: ascii_def)
    moreover have "cs = xs" using Cons.IH [of cs] Cons.prems(1) h(3) c eq a(4) by (simp add: ascii_def)
    ultimately show ?thesis using Cons by simp
  qed
qed

lemma unat_hex_digit: "n < 16 \<Longrightarrow> unat (hex_digit n) = (if n < 10 then 48 + n else 87 + n)"
proof -
  assume "n < 16"
  have "unat (of_nat (48 + n) :: jschar) = 48 + n" "unat (of_nat (87 + n) :: jschar) = 87 + n"
    using \<open>n < 16\<close> by (simp_all only: unat_of_nat) simp_all
  then show ?thesis by (simp only: hex_digit_def split: if_split) simp
qed

lemma hex_digit_inj: "n < 16 \<Longrightarrow> m < 16 \<Longrightarrow> hex_digit n = hex_digit m \<Longrightarrow> n = m"
proof -
  assume n: "n < 16" and m: "m < 16" and e: "hex_digit n = hex_digit m"
  have "unat (hex_digit n) = unat (hex_digit m)" by (simp only: e)
  then have "(if n < 10 then 48 + n else 87 + n) = (if m < 10 then 48 + m else 87 + m)"
    by (simp only: unat_hex_digit [OF n] unat_hex_digit [OF m])
  then show "n = m" by (cases "n < 10"; cases "m < 10") simp_all
qed

lemma unat_byte_less: "unat (b::byte) < 256"
  using unsigned_less [of b, where 'a = nat] by simp

lemma hex_inj: "hex xs = hex ys \<Longrightarrow> xs = ys"
proof (induction xs arbitrary: ys)
  case Nil
  then show ?case by (cases ys) simp_all
next
  case (Cons x xs)
  then obtain y ys' where ys: "ys = y # ys'" by (cases ys) simp_all
  have lt: "unat x div 16 < 16" "unat y div 16 < 16" "unat x mod 16 < 16" "unat y mod 16 < 16"
    using unat_byte_less [of x] unat_byte_less [of y] by auto
  from Cons.prems ys have e: "hex_digit (unat x div 16) = hex_digit (unat y div 16)"
    "hex_digit (unat x mod 16) = hex_digit (unat y mod 16)" "hex xs = hex ys'"
    by simp_all
  have "unat x div 16 = unat y div 16" "unat x mod 16 = unat y mod 16"
    using hex_digit_inj [OF lt(1,2) e(1)] hex_digit_inj [OF lt(3,4) e(2)] by simp_all
  then have "unat x = unat y" by (metis div_mult_mod_eq)
  then show ?case using Cons.IH [of ys'] \<open>hex xs = hex ys'\<close> ys by (simp add: word_unat_eq_iff)
qed

lemma ascii_hex: "ascii (hex bs)"
proof (induction bs)
  case (Cons b bs)
  have "unat b div 16 < 16" "unat b mod 16 < 16" using unat_byte_less [of b] by auto
  then show ?case using Cons by (auto simp: ascii_def unat_hex_digit)
qed (simp add: ascii_def)

lemma ascii_append: "ascii (xs @ ys) \<longleftrightarrow> ascii xs \<and> ascii ys"
  by (auto simp: ascii_def)

lemma ascii_prefix: "ascii (lit ''sha256='')"
  by (simp add: ascii_def lit_def)

subsection \<open>What the verifier returns\<close>

lemma verify_try_result:
  assumes "createHmac pf secret rawBody = Inr d"
  shows "verify_try pf rawBody h secret = Inr (h = lit ''sha256='' @ hex d)"
proof -
  let ?e = "lit ''sha256='' @ hex d"
  have asc: "ascii ?e"
    by (simp add: ascii_append ascii_prefix ascii_hex)
  have iff: "Buffer_from h = Buffer_from ?e \<longleftrightarrow> h = ?e"
    using Buffer_from_ascii_eq [OF asc] by blast
  show ?thesis
  proof (cases "length (Buffer_from h) = length (Buffer_from ?e)")
    case True
    then show ?thesis
      using assms iff by (simp add: verify_try_def timingSafeEqual_def Let_def)
  next
    case False
    then have "h \<noteq> ?e" by auto
    then show ?thesis
      using assms False by (simp add: verify_try_def Let_def)
  qed
qed

lemma verify_result:
  "createHmac pf secret rawBody = Inr d \<Longrightarrow>
   verifyWebhookSignature pf rawBody h secret = Inr (h = lit ''sha256='' @ hex d)"
  by (simp add: verifyWebhookSignature_def verify_try_result)

lemma verify_total: "\<exists>b. verifyWebhookSignature pf rawBody h secret = Inr b"
  by (cases "verify_try pf rawBody h secret") (auto simp: verifyWebhookSignature_def)

subsection \<open>Signature verification\<close>

text \<open>
  C1: for every payload and secret, the verifier returns true on the header \<open>sha256=\<close>
  followed by the lowercase hexadecimal HMAC of the payload under that secret, and false on
  \<open>sha256=\<close> followed by the hexadecimal HMAC of the payload under any secret whose digest
  of the payload is a different one. The premise says that the HMAC primitive returned the
  digest \<open>d\<close> rather than throwing.
\<close>

theorem verify_accepts_own_digest_only:
  "createHmac pf secret payload = Inr d \<Longrightarrow>
   verifyWebhookSignature pf payload (lit ''sha256='' @ hex d) secret = Inr True \<and>
   (\<forall>secret' d'. createHmac pf secret' payload = Inr d' \<and> d' \<noteq> d \<longrightarrow>
      verifyWebhookSignature pf payload (lit ''sha256='' @ hex d') secret = Inr False)"
  using hex_inj by (auto simp: verify_result)

theorem verify_accepts_own_digest_only_witness:
  "createHmac sample_platform (lit ''k1'') (bytes ''abc'') = Inr [2, 3] \<and>
   verifyWebhookSignature sample_platform (bytes ''abc'') (lit ''sha256=0203'') (lit ''k1'')
     = Inr True \<and>
   createHmac sample_platform (lit ''key-2'') (bytes ''abc'') = Inr [5, 3] \<and>
   verifyWebhookSignature sample_platform (bytes ''abc'') (lit ''sha256=0503'') (lit ''k1'')
     = Inr False"
proof -
  have own: "createHmac sample_platform (lit ''k1'') (bytes ''abc'') = Inr [2, 3]"
    by (simp add: sample_defs)
  have other: "createHmac sample_platform (lit ''key-2'') (bytes ''abc'') = Inr [5, 3]"
    by (simp add: sample_defs)
  have hx: "lit ''sha256='' @ hex [2, 3] = lit ''sha256=0203''"
    "lit ''sha256='' @ hex [5, 3] = lit ''sha256=0503''"
    by (simp_all add: hex_digit_def lit_def)
  have ne: "[5, 3] \<noteq> [2, 3 :: byte]" by simp
  from verify_accepts_own_digest_only [OF own] other ne
  have "verifyWebhookSignature sample_platform (bytes ''abc'') (lit ''sha256='' @ hex [2, 3])
          (lit ''k1'') = Inr True"
    and "verifyWebhookSignature sample_platform (bytes ''abc'') (lit ''sha256='' @ hex [5, 3])
          (lit ''k1'') = Inr False"
    by blast+
  then show ?thesis using own other by (simp only: hx)
qed

text \<open>
  C9: the verifier always returns a boolean and never throws. When the HMAC primitive returns
  a digest, the \<open>try\<close> block itself returns a boolean: where the header's bytes and the
  expected string's bytes differ in length, \<open>timingSafeEqual\<close> on the two would throw a
  RangeError, and the block returns false without calling it. An exception raised in the
  block makes the verifier return false.
\<close>

theorem verify_never_throws:
  "(\<exists>b. verifyWebhookSignature pf rawBody h secret = Inr b) \<and>
   (\<forall>d. createHmac pf secret rawBody = Inr d \<longrightarrow>
      (\<exists>b. verify_try pf rawBody h secret = Inr b) \<and>
      (length (Buffer_from h) \<noteq> length (Buffer_from (lit ''sha256='' @ hex d)) \<longrightarrow>
         timingSafeEqual (Buffer_from h) (Buffer_from (lit ''sha256='' @ hex d)) = Inl RangeError \<and>
         verify_try pf rawBody h secret = Inr False \<and>
         verifyWebhookSignature pf rawBody h secret = Inr False)) \<and>
   (\<forall>e. verify_try pf rawBody h secret = Inl e \<longrightarrow>
      verifyWebhookSignature pf rawBody h secret = Inr False)"
proof (intro conjI allI impI)
  show "\<exists>b. verifyWebhookSignature pf rawBody h secret = Inr b"
    by (rule verify_total)
next
  fix d assume "createHmac pf secret rawBody = Inr d"
  then show "\<exists>b. verify_try pf rawBody h secret = Inr b"
    by (simp add: verify_try_result)
next
  fix d
  assume "length (Buffer_from h) \<noteq> length (Buffer_from (lit ''sha256='' @ hex d))"
  then show "timingSafeEqual (Buffer_from h) (Buffer_from (lit ''sha256='' @ hex d)) = Inl RangeError"
    by (simp add: timingSafeEqual_def)
next
  fix d
  assume "createHmac pf secret rawBody = Inr d"
    and "length (Buffer_from h) \<noteq> length (Buffer_from (lit ''sha256='' @ hex d))"
  then show "verify_try pf rawBody h secret = Inr False"
    by (simp add: verify_try_def Let_def)
  then show "verifyWebhookSignature pf rawBody h secret = Inr False"
    by (simp add: verifyWebhookSignature_def)
next
  fix e assume "verify_try pf rawBody h secret = Inl e"
  then show "verifyWebhookSignature pf rawBody h secret = Inr False"
    by (simp add: verifyWebhookSignature_def)
qed

theorem verify_never_throws_witness:
  "verifyWebhookSignature sample_platform (bytes ''abc'') (lit ''sha256=deadbeef'') (lit ''k1'')
     = Inr False \<and>
   verify_try sample_platform (bytes ''abc'') (lit ''sha256=deadbeef'') (lit ''k1'') = Inr False \<and>
   timingSafeEqual (Buffer_from (lit ''sha256=deadbeef'')) (Buffer_from (lit ''sha256=0203''))
     = Inl RangeError \<and>
   verify_try failing_platform (bytes ''abc'') (lit ''sha256=0203'') (lit ''k1'') = Inl TypeError \<and>
   verifyWebhookSignature failing_platform (bytes ''abc'') (lit ''sha256=0203'') (lit ''k1'')
     = Inr False"
proof -
  have own: "createHmac sample_platform (lit ''k1'') (bytes ''abc'') = Inr [2, 3]"
    by (simp add: sample_defs)
  have hx: "lit ''sha256='' @ hex [2, 3] = lit ''sha256=0203''"
    by (simp add: hex_digit_def lit_def)
  have len: "length (Buffer_from (lit ''sha256=deadbeef''))
               \<noteq> length (Buffer_from (lit ''sha256='' @ hex [2, 3]))"
    unfolding hx by (simp add: lit_def)
  have thrown: "verify_try failing_platform (bytes ''abc'') (lit ''sha256=0203'') (lit ''k1'')
                  = Inl TypeError"
    by (simp add: verify_try_def failing_platform_def)
  from verify_never_throws [of sample_platform "bytes ''abc''" "lit ''sha256=deadbeef''" "lit ''k1''"]
    own len
  have "timingSafeEqual (Buffer_from (lit ''sha256=deadbeef''))
          (Buffer_from (lit ''sha256='' @ hex [2, 3])) = Inl RangeError"
    and "verify_try sample_platform (bytes ''abc'') (lit ''sha256=deadbeef'') (lit ''k1'')
          = Inr False"
    and "verifyWebhookSignature sample_platform (bytes ''abc'') (lit ''sha256=deadbeef'')
          (lit ''k1'') = Inr False"
    by blast+
  moreover from verify_never_throws [of failing_platform "bytes ''abc''" "lit ''sha256=0203''" "lit ''k1''"]
    thrown
  have "verifyWebhookSignature failing_platform (bytes ''abc'') (lit ''sha256=0203'') (lit ''k1'')
          = Inr False"
    by blast
  ultimately show ?thesis using thrown by (simp only: hx)
qed

subsection \<open>The route, step by step\<close>

lemma of_char_less_256: "(of_char c :: nat) < 256"
proof -
  have "(of_char c :: nat) mod 256 < 256" by simp
  then show ?thesis by (simp only: of_char_mod_256)
qed

lemma unat_lit: "map unat (lit s) = map of_char s"
proof -
  have "unat (of_nat (of_char c) :: jschar) = of_char c" for c
  proof -
    have "(of_char c :: nat) < 65536"
      by (rule less_trans [OF of_char_less_256]) simp
    then have "(of_char c :: nat) mod 65536 = of_char c" by simp
    then show ?thesis by (simp only: unat_of_nat) simp
  qed
  then show ?thesis by (simp add: lit_def)
qed

lemma lit_eq_iff: "lit a = lit b \<longleftrightarrow> a = b"
proof
  assume "lit a = lit b"
  then have "map unat (lit a) = map unat (lit b)" by simp
  then have "map (of_char :: char \<Rightarrow> nat) a = map of_char b" by (simp only: unat_lit)
  then show "a = b" by (simp add: inj_map_eq_map [OF inj_of_char])
qed simp

lemma statuses_append: "statuses (xs @ ys) = statuses xs @ statuses ys"
  by (induction xs rule: statuses.induct) simp_all

lemma invocations_append: "invocations (xs @ ys) = invocations xs @ invocations ys"
  by (induction xs rule: invocations.induct) simp_all

lemma statuses_console: "statuses (map (\<lambda>(lv, msg). Console lv msg) out) = []"
  by (induction out) auto


lemma statuses_invoke: "statuses (fst (invoke hs h event)) = []"
  by (simp add: invoke_def statuses_console split: prod.split)


lemma statuses_unhandled: "statuses (fst (unhandled pf event)) = []"
  by (simp add: unhandled_def statuses_console split: prod.split)


lemma statuses_dispatchEvent: "statuses (fst (dispatchEvent pf hs event)) = []"
  by (simp add: dispatchEvent_def statuses_invoke statuses_unhandled split: sum.split)

lemma verify_step_rejected:
  "signature_rejected pf ws req \<Longrightarrow>
   verify_step pf ws req = Some missing_signature \<or> verify_step pf ws req = Some invalid_signature"
  by (auto simp: signature_rejected_def verify_step_def split: option.splits)

lemma verify_not_thrown: "verifyWebhookSignature pf rawBody h secret \<noteq> Inl e"
  using verify_total [of pf rawBody h secret] by auto

lemma verify_step_passed:
  "\<not> signature_rejected pf ws req \<Longrightarrow> verify_step pf ws req = None"
  by (auto simp: signature_rejected_def verify_step_def verify_not_thrown
      split: option.splits sum.splits)

lemma ack_and_dispatch_shape:
  "\<exists>tail r. ack_and_dispatch pf hs event = (SendStatus 200 # fst (dispatchEvent pf hs event) @ tail, r)
     \<and> statuses tail = [] \<and> invocations tail = []"
  by (cases "dispatchEvent pf hs event")
     (auto simp: ack_and_dispatch_def split: sum.splits)

lemma parse_and_dispatch_malformed:
  "malformed pf req \<Longrightarrow>
   parse_and_dispatch pf hs req = ([Json 400 (error_body ''Invalid JSON body'')], Inr ()) \<or>
   parse_and_dispatch pf hs req = ([Json 400 (error_body ''Missing event.type'')], Inr ())"
  by (auto simp: malformed_def parse_and_dispatch_def Let_def split: sum.splits)

lemma parse_and_dispatch_wellformed:
  "\<not> malformed pf req \<Longrightarrow>
   parse_and_dispatch pf hs req = ack_and_dispatch pf hs (event_of pf req)"
  by (auto simp: malformed_def parse_and_dispatch_def event_of_def Let_def split: sum.splits)

lemma dot_string_type: "getProp event ''type'' = Str t \<Longrightarrow> dot event ''type'' = Inr (Str t)"
  by (cases event) (simp_all add: dot_def nullish_def)



lemma statuses_parse_and_dispatch:
  "statuses (fst (parse_and_dispatch pf hs req)) = [if malformed pf req then 400 else 200]"
proof (cases "malformed pf req")
  case True
  then show ?thesis
    using parse_and_dispatch_malformed [OF True, of hs] by auto
next
  case False
  obtain tail r where
    "ack_and_dispatch pf hs (event_of pf req) =
       (SendStatus 200 # fst (dispatchEvent pf hs (event_of pf req)) @ tail, r)"
    "statuses tail = []"
    using ack_and_dispatch_shape by blast
  then show ?thesis
    using False parse_and_dispatch_wellformed [OF False, of hs]
    by (simp add: statuses_append statuses_dispatchEvent)
qed

lemma verify_step_unset: "\<not> truthy_string ws \<Longrightarrow> verify_step pf ws req = None"
  by (simp add: truthy_string_def verify_step_def split: option.splits)

lemma parse_and_dispatch_signature:
  "parse_and_dispatch pf hs (req\<lparr>signature := sg\<rparr>) = parse_and_dispatch pf hs req"
  by (simp add: parse_and_dispatch_def)

subsection \<open>Runs on the example platform\<close>

lemma sample_verify:
  "verifyWebhookSignature sample_platform b h k =
     Inr (h = lit ''sha256='' @ hex [byte_of (length k), byte_of (length b)])"
  by (rule verify_result) (simp add: sample_platform_def sample_hmac_def)

lemma sample_signed:
  "length k = n \<Longrightarrow> length b = m \<Longrightarrow>
   verifyWebhookSignature sample_platform b h k = Inr (h = lit ''sha256='' @ hex [byte_of n, byte_of m])"
  by (simp add: sample_verify)

lemma create_signed:
  "verifyWebhookSignature sample_platform (bytes create_text) (lit ''sha256=024f'') (lit ''k1'')
     = Inr True"
proof -
  have "lit ''sha256='' @ hex [byte_of 2, byte_of 79] = lit ''sha256=024f''"
    by (simp add: hex_digit_def lit_def byte_of_def)
  then show ?thesis
    by (simp add: sample_signed [where n = 2 and m = 79] lit_def bytes_def create_text_def)
qed

lemma create_forged:
  "verifyWebhookSignature sample_platform (bytes create_text) (lit ''sha256=deadbeef'') (lit ''k1'')
     = Inr False"
  by (simp add: sample_signed [where n = 2 and m = 79] lit_def bytes_def create_text_def)

lemma garbage_signed:
  "verifyWebhookSignature sample_platform (bytes ''not valid json'') (lit ''sha256=020e'') (lit ''k1'')
     = Inr True"
proof -
  have "lit ''sha256='' @ hex [byte_of 2, byte_of 14] = lit ''sha256=020e''"
    by (simp add: hex_digit_def lit_def byte_of_def)
  then show ?thesis
    by (simp add: sample_signed [where n = 2 and m = 14] lit_def bytes_def)
qed

lemma bare_signed:
  \<open>verifyWebhookSignature sample_platform (bytes ''{"event":{"type":"user.create","id":"e2"}}'')
     (lit ''sha256=022a'') (lit ''k1'') = Inr True\<close>
proof -
  have "lit ''sha256='' @ hex [byte_of 2, byte_of 42] = lit ''sha256=022a''"
    by (simp add: hex_digit_def lit_def byte_of_def)
  then show ?thesis
    by (simp add: sample_signed [where n = 2 and m = 42] lit_def bytes_def)
qed

lemma k1_truthy: "lit ''k1'' \<noteq> []"
  by (simp add: lit_def)

subsection \<open>The response contract\<close>

lemma signature_rejected_iff:
  "signature_rejected pf ws req \<longleftrightarrow>
     (\<exists>secret. ws = Some secret \<and> secret \<noteq> [] \<and> signature_fails pf secret req)"
  by (cases ws) (simp_all add: signature_rejected_def signature_fails_def)

lemma statuses_router:
  "statuses (fst (fusionAuthWebhookRouter pf hs ws req)) =
     [if signature_rejected pf ws req then 401 else if malformed pf req then 400 else 200] \<and>
   (signature_rejected pf ws req \<or> malformed pf req \<longrightarrow>
      invocations (fst (fusionAuthWebhookRouter pf hs ws req)) = [])"
proof (cases "signature_rejected pf ws req")
  case True
  then show ?thesis
    using verify_step_rejected [OF True]
    by (auto simp: fusionAuthWebhookRouter_def missing_signature_def invalid_signature_def)
next
  case False
  note passed = verify_step_passed [OF False]
  show ?thesis
  proof (cases "malformed pf req")
    case True
    then show ?thesis
      using False passed parse_and_dispatch_malformed [OF True, of hs]
      by (auto simp: fusionAuthWebhookRouter_def)
  next
    case wf: False
    obtain tail r where
      "ack_and_dispatch pf hs (event_of pf req) =
         (SendStatus 200 # fst (dispatchEvent pf hs (event_of pf req)) @ tail, r)"
      "statuses tail = []"
      using ack_and_dispatch_shape by blast
    then show ?thesis
      using False wf passed parse_and_dispatch_wellformed [OF wf, of hs]
      by (simp add: fusionAuthWebhookRouter_def statuses_append statuses_dispatchEvent)
  qed
qed

text \<open>
  C4, as the code has it: every request gets exactly one response. When a non-empty secret
  is configured, it is 401 if the signature fails (the header is missing or the signature
  does not verify under the secret), otherwise 400 if the body does not parse or lacks a
  truthy \<open>event.type\<close>, otherwise 200. When no secret is configured (unset or the empty
  string) the signature is not looked at: 400 for such a body, otherwise 200. With a 401 or
  a 400 no handler is invoked.
\<close>

theorem response_contract:
  "(\<forall>secret. ws = Some secret \<and> secret \<noteq> [] \<longrightarrow>
      statuses (fst (fusionAuthWebhookRouter pf hs ws req)) =
        [if signature_fails pf secret req then 401
         else if malformed pf req then 400 else 200] \<and>
      (signature_fails pf secret req \<or> malformed pf req \<longrightarrow>
         invocations (fst (fusionAuthWebhookRouter pf hs ws req)) = [])) \<and>
   (ws = None \<or> ws = Some [] \<longrightarrow>
      statuses (fst (fusionAuthWebhookRouter pf hs ws req)) =
        [if malformed pf req then 400 else 200] \<and>
      (malformed pf req \<longrightarrow>
         invocations (fst (fusionAuthWebhookRouter pf hs ws req)) = []))"
proof (intro conjI allI impI)
  fix secret
  assume s: "ws = Some secret \<and> secret \<noteq> []"
  then have eq: "signature_rejected pf ws req \<longleftrightarrow> signature_fails pf secret req"
    by (simp add: signature_rejected_iff)
  show "statuses (fst (fusionAuthWebhookRouter pf hs ws req)) =
      [if signature_fails pf secret req then 401 else if malformed pf req then 400 else 200]"
    using statuses_router [of pf hs ws req] by (simp only: eq)
  show "invocations (fst (fusionAuthWebhookRouter pf hs ws req)) = []"
    if "signature_fails pf secret req \<or> malformed pf req"
    using statuses_router [of pf hs ws req] that by (simp only: eq)
next
  assume n: "ws = None \<or> ws = Some []"
  then have no: "\<not> signature_rejected pf ws req"
    by (auto simp: signature_rejected_iff)
  show "statuses (fst (fusionAuthWebhookRouter pf hs ws req)) =
      [if malformed pf req then 400 else 200]"
    using statuses_router [of pf hs ws req] no by simp
  show "invocations (fst (fusionAuthWebhookRouter pf hs ws req)) = []"
    if "malformed pf req"
    using statuses_router [of pf hs ws req] that by simp
qed

theorem response_contract_witness:
  "statuses (fst (fusionAuthWebhookRouter sample_platform (template_handlers sample_platform)
     (Some (lit ''k1'')) \<lparr>signature = Some (lit ''sha256=deadbeef''), body = bytes create_text\<rparr>))
     = [401] \<and>
   invocations (fst (fusionAuthWebhookRouter sample_platform (template_handlers sample_platform)
     (Some (lit ''k1'')) \<lparr>signature = Some (lit ''sha256=deadbeef''), body = bytes create_text\<rparr>))
     = [] \<and>
   statuses (fst (fusionAuthWebhookRouter sample_platform (template_handlers sample_platform)
     (Some (lit ''k1'')) \<lparr>signature = Some (lit ''sha256=020e''), body = bytes ''not valid json''\<rparr>))
     = [400] \<and>
   invocations (fst (fusionAuthWebhookRouter sample_platform (template_handlers sample_platform)
     (Some (lit ''k1'')) \<lparr>signature = Some (lit ''sha256=020e''), body = bytes ''not valid json''\<rparr>))
     = [] \<and>
   statuses (fst (fusionAuthWebhookRouter sample_platform (template_handlers sample_platform)
     (Some (lit ''k1'')) \<lparr>signature = Some (lit ''sha256=024f''), body = bytes create_text\<rparr>))
     = [200] \<and>
   statuses (fst (fusionAuthWebhookRouter sample_platform (template_handlers sample_platform)
     None \<lparr>signature = None, body = bytes ''not valid json''\<rparr>)) = [400] \<and>
   statuses (fst (fusionAuthWebhookRouter sample_platform (template_handlers sample_platform)
     (Some []) \<lparr>signature = None, body = bytes create_text\<rparr>)) = [200]"
proof -
  let ?hs = "template_handlers sample_platform"
  let ?k = "Some (lit ''k1'')"
  let ?forged = "\<lparr>signature = Some (lit ''sha256=deadbeef''), body = bytes create_text\<rparr>"
  let ?garbage = "\<lparr>signature = Some (lit ''sha256=020e''), body = bytes ''not valid json''\<rparr>"
  let ?good = "\<lparr>signature = Some (lit ''sha256=024f''), body = bytes create_text\<rparr>"
  let ?bare = "\<lparr>signature = None, body = bytes ''not valid json''\<rparr>"
  let ?unsigned = "\<lparr>signature = None, body = bytes create_text\<rparr>"
  have k: "?k = Some (lit ''k1'') \<and> lit ''k1'' \<noteq> []"
    by (simp add: k1_truthy)
  have r1: "signature_fails sample_platform (lit ''k1'') ?forged"
    by (simp add: signature_fails_def create_forged)
  have r2: "\<not> signature_fails sample_platform (lit ''k1'') ?garbage"
    by (simp add: signature_fails_def garbage_signed) (simp add: lit_def)
  have m2: "malformed sample_platform ?garbage"
    by (simp add: malformed_def sample_defs)
  have r3: "\<not> signature_fails sample_platform (lit ''k1'') ?good"
    by (simp add: signature_fails_def create_signed) (simp add: lit_def)
  have m3: "\<not> malformed sample_platform ?good"
    by (simp add: malformed_def opt_dot_def nullish_def sample_defs)
  have m4: "malformed sample_platform ?bare"
    by (simp add: malformed_def sample_defs)
  have m5: "\<not> malformed sample_platform ?unsigned"
    by (simp add: malformed_def opt_dot_def nullish_def sample_defs)
  note with_secret = response_contract [THEN conjunct1, rule_format, OF k]
  note without = response_contract [THEN conjunct2, rule_format]
  have a: "statuses (fst (fusionAuthWebhookRouter sample_platform ?hs ?k ?forged)) = [401]"
    and a': "invocations (fst (fusionAuthWebhookRouter sample_platform ?hs ?k ?forged)) = []"
    using with_secret [of sample_platform ?hs ?forged] r1 by simp_all
  have b: "statuses (fst (fusionAuthWebhookRouter sample_platform ?hs ?k ?garbage)) = [400]"
    and b': "invocations (fst (fusionAuthWebhookRouter sample_platform ?hs ?k ?garbage)) = []"
    using with_secret [of sample_platform ?hs ?garbage] r2 m2 by simp_all
  have c: "statuses (fst (fusionAuthWebhookRouter sample_platform ?hs ?k ?good)) = [200]"
    using with_secret [of sample_platform ?hs ?good] r3 m3 by simp
  have d: "statuses (fst (fusionAuthWebhookRouter sample_platform ?hs None ?bare)) = [400]"
    using without [of None sample_platform ?hs ?bare] m4 by simp
  have e: "statuses (fst (fusionAuthWebhookRouter sample_platform ?hs (Some []) ?unsigned)) = [200]"
    using without [of "Some []" sample_platform ?hs ?unsigned] m5 by simp
  show ?thesis using a a' b b' c d e by (intro conjI)
qed

text \<open>
  C4 as stated fails: with the secret set to the empty string, a forged signature does not
  verify under that secret, and the request is acknowledged and its handler invoked.
\<close>

theorem forged_signature_acknowledged_counterexample:
  "verifyWebhookSignature sample_platform (bytes create_text) (lit ''sha256=deadbeef'') []
     = Inr False \<and>
   fusionAuthWebhookRouter sample_platform (template_handlers sample_platform) (Some [])
     \<lparr>signature = Some (lit ''sha256=deadbeef''), body = bytes create_text\<rparr> =
   ([SendStatus 200, Invoked OnUserCreate create_event,
     Console LogL (lit ''[fusionauth] New user registered: a@b.com (u1)'')], Inr ())"
proof
  show "verifyWebhookSignature sample_platform (bytes create_text) (lit ''sha256=deadbeef'') []
      = Inr False"
    by (simp add: sample_signed [where n = 0 and m = 79] lit_def bytes_def create_text_def)
  show "fusionAuthWebhookRouter sample_platform (template_handlers sample_platform) (Some [])
     \<lparr>signature = Some (lit ''sha256=deadbeef''), body = bytes create_text\<rparr> =
   ([SendStatus 200, Invoked OnUserCreate create_event,
     Console LogL (lit ''[fusionauth] New user registered: a@b.com (u1)'')], Inr ())"
    by (simp add: route_defs sample_defs onUserCreate_def)
qed

text \<open>
  C5: for every request that passes the signature step and is well formed, the first effect
  of the run is the 200 acknowledgement; the effects of \<open>dispatchEvent\<close>, the handler's
  among them, follow it, and no other response is sent.
\<close>

theorem ack_before_handler:
  "\<not> signature_rejected pf ws req \<Longrightarrow> \<not> malformed pf req \<Longrightarrow>
   \<exists>tail. fst (fusionAuthWebhookRouter pf hs ws req) =
     SendStatus 200 # fst (dispatchEvent pf hs (event_of pf req)) @ tail \<and>
     statuses (fst (dispatchEvent pf hs (event_of pf req)) @ tail) = [] \<and>
     invocations tail = []"
proof -
  assume a: "\<not> signature_rejected pf ws req" and wf: "\<not> malformed pf req"
  obtain tail r where
    "ack_and_dispatch pf hs (event_of pf req) =
       (SendStatus 200 # fst (dispatchEvent pf hs (event_of pf req)) @ tail, r)"
    "statuses tail = []" "invocations tail = []"
    using ack_and_dispatch_shape by blast
  then show ?thesis
    using verify_step_passed [OF a] parse_and_dispatch_wellformed [OF wf, of hs]
    by (simp add: fusionAuthWebhookRouter_def statuses_append statuses_dispatchEvent)
qed

theorem ack_before_handler_witness:
  "\<not> signature_rejected sample_platform (Some (lit ''k1''))
       \<lparr>signature = Some (lit ''sha256=024f''), body = bytes create_text\<rparr> \<and>
   \<not> malformed sample_platform
       \<lparr>signature = Some (lit ''sha256=024f''), body = bytes create_text\<rparr> \<and>
   (\<exists>tail. fst (fusionAuthWebhookRouter sample_platform (template_handlers sample_platform)
       (Some (lit ''k1'')) \<lparr>signature = Some (lit ''sha256=024f''), body = bytes create_text\<rparr>) =
     SendStatus 200 #
       [Invoked OnUserCreate create_event,
        Console LogL (lit ''[fusionauth] New user registered: a@b.com (u1)'')] @ tail \<and>
     invocations tail = [])"
proof -
  let ?hs = "template_handlers sample_platform"
  let ?good = "\<lparr>signature = Some (lit ''sha256=024f''), body = bytes create_text\<rparr>"
  have r: "\<not> signature_rejected sample_platform (Some (lit ''k1'')) ?good"
    by (simp add: signature_rejected_def create_signed k1_truthy) (simp add: lit_def)
  have m: "\<not> malformed sample_platform ?good"
    by (simp add: malformed_def opt_dot_def nullish_def sample_defs)
  have ev: "event_of sample_platform ?good = create_event"
    by (simp add: event_of_def opt_dot_def nullish_def sample_defs)
  have d: "fst (dispatchEvent sample_platform ?hs create_event) =
      [Invoked OnUserCreate create_event,
       Console LogL (lit ''[fusionauth] New user registered: a@b.com (u1)'')]"
    by (simp add: route_defs sample_defs onUserCreate_def)
  from ack_before_handler [OF r m, of ?hs] obtain tail where
    "fst (fusionAuthWebhookRouter sample_platform ?hs (Some (lit ''k1'')) ?good) =
       SendStatus 200 # fst (dispatchEvent sample_platform ?hs (event_of sample_platform ?good)) @ tail"
    "invocations tail = []"
    by blast
  then show ?thesis using r m unfolding ev d by blast
qed

text \<open>
  C6: when, for an authenticated and well-formed event (its type a string), the dispatch
  throws or rejects with \<open>err\<close>, the route catches it: it writes the error to the console
  and resolves, and the one response of the request stays the 200 sent before.
\<close>

theorem handler_failure_contained:
  assumes "\<not> signature_rejected pf ws req" and "\<not> malformed pf req"
    and "getProp (event_of pf req) ''type'' = Str t"
    and "dispatchEvent pf hs (event_of pf req) = (tr, Inl err)"
  shows "fusionAuthWebhookRouter pf hs ws req =
           (SendStatus 200 # tr @
              [ConsoleErr (lit ''[fusionauth] Error handling event '' @ t @ lit '':'') err],
            Inr ()) \<and>
         statuses (fst (fusionAuthWebhookRouter pf hs ws req)) = [200]"
proof -
  have st: "statuses tr = []"
    using statuses_dispatchEvent [of pf hs "event_of pf req"] assms(4) by simp
  have "fusionAuthWebhookRouter pf hs ws req = ack_and_dispatch pf hs (event_of pf req)"
    using verify_step_passed [OF assms(1)] parse_and_dispatch_wellformed [OF assms(2)]
    by (simp add: fusionAuthWebhookRouter_def)
  also have "\<dots> = (SendStatus 200 # tr @
      [ConsoleErr (lit ''[fusionauth] Error handling event '' @ t @ lit '':'') err], Inr ())"
    using assms(4) dot_string_type [OF assms(3)] by (simp add: ack_and_dispatch_def)
  finally show ?thesis using st by (simp add: statuses_append)
qed

theorem handler_failure_contained_witness:
  \<open>fusionAuthWebhookRouter sample_platform (template_handlers sample_platform)
     (Some (lit ''k1''))
     \<lparr>signature = Some (lit ''sha256=022a''),
      body = bytes ''{"event":{"type":"user.create","id":"e2"}}''\<rparr> =
   ([SendStatus 200, Invoked OnUserCreate bare_create_event,
     ConsoleErr (lit ''[fusionauth] Error handling event user.create:'') TypeError], Inr ())\<close>
proof -
  let ?hs = "template_handlers sample_platform"
  let ?req = \<open>\<lparr>signature = Some (lit ''sha256=022a''),
      body = bytes ''{"event":{"type":"user.create","id":"e2"}}''\<rparr>\<close>
  have r: "\<not> signature_rejected sample_platform (Some (lit ''k1'')) ?req"
    by (simp add: signature_rejected_def bare_signed k1_truthy) (simp add: lit_def)
  have m: "\<not> malformed sample_platform ?req"
    by (simp add: malformed_def opt_dot_def nullish_def sample_defs)
  have ev: "event_of sample_platform ?req = bare_create_event"
    by (simp add: event_of_def opt_dot_def nullish_def sample_defs)
  have t: "getProp (event_of sample_platform ?req) ''type'' = Str (lit ''user.create'')"
    unfolding ev by (simp add: bare_create_event_def lit_eq_iff)
  have d: "dispatchEvent sample_platform ?hs (event_of sample_platform ?req) =
      ([Invoked OnUserCreate bare_create_event], Inl TypeError)"
    unfolding ev by (simp add: route_defs sample_defs onUserCreate_def)
  have msg: "lit ''[fusionauth] Error handling event '' @ lit ''user.create'' @ lit '':'' =
      lit ''[fusionauth] Error handling event user.create:''"
    by (simp add: lit_def)
  show ?thesis
    using handler_failure_contained [OF r m t d, THEN conjunct1] unfolding msg by simp
qed

text \<open>
  The premise on the type is needed. A truthy \<open>event.type\<close> that is not a string passes the
  check of the route; if it is an object with an own property \<open>toString\<close>, the template
  literal of the fallback throws, and the one in the \<open>catch\<close> block throws again: the
  route has answered 200 and then rejects.
\<close>

lemma catch_block_rethrows:
  "ack_and_dispatch pf hs (Obj [(lit ''type'', Obj [(lit ''toString'', Null)])]) =
     ([SendStatus 200], Inl TypeError)"
  by (simp add: ack_and_dispatch_def dispatchEvent_def unhandled_def console_def dot_def
      nullish_def lit_eq_iff)

subsection \<open>Dispatch\<close>






subsection \<open>The signature step and the configuration\<close>

text \<open>
  C2, as the code has it: when the secret is unset or the empty string, the route skips the
  signature step. Whatever the signature header, the run is that of parsing and dispatching
  the body alone: 400 for a malformed body, otherwise 200 and dispatch; nothing is written
  to the console about the skipped check.
\<close>

theorem unset_secret_skips_verification:
  "\<not> truthy_string ws \<Longrightarrow>
   fusionAuthWebhookRouter pf hs ws req = parse_and_dispatch pf hs req \<and>
   statuses (fst (fusionAuthWebhookRouter pf hs ws req)) = [if malformed pf req then 400 else 200] \<and>
   (\<forall>sg. fusionAuthWebhookRouter pf hs ws (req\<lparr>signature := sg\<rparr>) =
           fusionAuthWebhookRouter pf hs ws req)"
  by (simp add: fusionAuthWebhookRouter_def verify_step_unset statuses_parse_and_dispatch
      parse_and_dispatch_signature)

theorem unset_secret_skips_verification_witness:
  "\<not> truthy_string None \<and>
   statuses (fst (fusionAuthWebhookRouter sample_platform (template_handlers sample_platform) None
     \<lparr>signature = Some (lit ''sha256=deadbeef''), body = bytes create_text\<rparr>)) = [200] \<and>
   fusionAuthWebhookRouter sample_platform (template_handlers sample_platform) None
     \<lparr>signature = None, body = bytes create_text\<rparr> =
   fusionAuthWebhookRouter sample_platform (template_handlers sample_platform) None
     \<lparr>signature = Some (lit ''sha256=deadbeef''), body = bytes create_text\<rparr>"
proof -
  let ?req = "\<lparr>signature = Some (lit ''sha256=deadbeef''), body = bytes create_text\<rparr>"
  have unset: "\<not> truthy_string None" by (simp add: truthy_string_def)
  have wf: "\<not> malformed sample_platform ?req"
    by (simp add: malformed_def opt_dot_def nullish_def sample_defs)
  have upd: "?req\<lparr>signature := None\<rparr> = \<lparr>signature = None, body = bytes create_text\<rparr>"
    by simp
  note T = unset_secret_skips_verification [OF unset, of sample_platform
      "template_handlers sample_platform" ?req]
  have st: "statuses (fst (fusionAuthWebhookRouter sample_platform
      (template_handlers sample_platform) None ?req)) = [200]"
    using T [THEN conjunct2, THEN conjunct1] wf by simp
  have "fusionAuthWebhookRouter sample_platform (template_handlers sample_platform) None
      (?req\<lparr>signature := None\<rparr>) =
    fusionAuthWebhookRouter sample_platform (template_handlers sample_platform) None ?req"
    using T [THEN conjunct2, THEN conjunct2] by (rule spec)
  then show ?thesis using unset st by (simp only: upd) simp
qed

text \<open>
  C2 as stated fails: with no secret configured, a request with a forged signature is
  acknowledged and dispatched, and the run holds no warning.
\<close>

theorem unset_secret_accepts_unsigned_counterexample:
  "fusionAuthWebhookRouter sample_platform (template_handlers sample_platform) None
     \<lparr>signature = Some (lit ''sha256=deadbeef''), body = bytes create_text\<rparr> =
   ([SendStatus 200, Invoked OnUserCreate create_event,
     Console LogL (lit ''[fusionauth] New user registered: a@b.com (u1)'')], Inr ())"
  by (simp add: route_defs sample_defs onUserCreate_def)

text \<open>
  C3, as the code has it: when a non-empty secret is configured, a request without the
  signature header is answered 401 with a warning; the outcome does not depend on the
  platform or the handlers, so no HMAC is computed or compared and no handler is invoked.
\<close>

theorem missing_header_rejected_when_secret_set:
  "truthy_string ws \<Longrightarrow> signature req = None \<Longrightarrow>
   fusionAuthWebhookRouter pf hs ws req =
     ([Console WarnL (lit ''[fusionauth] Webhook received without signature header''),
       Json 401 (error_body ''Missing signature'')], Inr ()) \<and>
   statuses (fst (fusionAuthWebhookRouter pf hs ws req)) = [401] \<and>
   invocations (fst (fusionAuthWebhookRouter pf hs ws req)) = [] \<and>
   (\<forall>pf' hs'. fusionAuthWebhookRouter pf' hs' ws req = fusionAuthWebhookRouter pf hs ws req)"
  by (auto simp: fusionAuthWebhookRouter_def verify_step_def truthy_string_def
      missing_signature_def split: option.splits)

theorem missing_header_rejected_when_secret_set_witness:
  "truthy_string (Some (lit ''k1'')) \<and>
   fusionAuthWebhookRouter sample_platform (template_handlers sample_platform) (Some (lit ''k1''))
     \<lparr>signature = None, body = bytes create_text\<rparr> =
     ([Console WarnL (lit ''[fusionauth] Webhook received without signature header''),
       Json 401 (error_body ''Missing signature'')], Inr ())"
proof -
  have set: "truthy_string (Some (lit ''k1''))"
    by (simp add: truthy_string_def lit_def)
  have absent: "signature \<lparr>signature = None, body = bytes create_text\<rparr> = None"
    by simp
  from missing_header_rejected_when_secret_set [OF set absent, of sample_platform
      "template_handlers sample_platform", THEN conjunct1]
  show ?thesis using set by simp
qed

text \<open>
  C3 as stated fails: with no secret configured, a request without the signature header
  is acknowledged and its handler invoked.
\<close>

theorem missing_header_accepted_counterexample:
  "fusionAuthWebhookRouter sample_platform (template_handlers sample_platform) None
     \<lparr>signature = None, body = bytes create_text\<rparr> =
   ([SendStatus 200, Invoked OnUserCreate create_event,
     Console LogL (lit ''[fusionauth] New user registered: a@b.com (u1)'')], Inr ())"
  by (simp add: route_defs sample_defs onUserCreate_def)

subsection \<open>The discriminator check\<close>

text \<open>
  C10, as the code has it: for every request that the signature step lets through and whose
  body parses as JSON, if \<open>event\<close> is missing or null, or \<open>event.type\<close> is absent or
  the empty string, the response is 400 "Missing event.type" and no handler is invoked.
\<close>

theorem falsy_type_is_malformed:
  "\<not> signature_rejected pf ws req \<Longrightarrow> JSON_parse pf (body req) = Inr payload \<Longrightarrow>
   nullish (opt_dot payload ''event'') \<or>
     getProp (opt_dot payload ''event'') ''type'' = Undefined \<or>
     getProp (opt_dot payload ''event'') ''type'' = Str [] \<Longrightarrow>
   fusionAuthWebhookRouter pf hs ws req =
     ([Json 400 (error_body ''Missing event.type'')], Inr ()) \<and>
   invocations (fst (fusionAuthWebhookRouter pf hs ws req)) = []"
proof -
  assume a: "\<not> signature_rejected pf ws req" and p: "JSON_parse pf (body req) = Inr payload"
    and f: "nullish (opt_dot payload ''event'') \<or>
     getProp (opt_dot payload ''event'') ''type'' = Undefined \<or>
     getProp (opt_dot payload ''event'') ''type'' = Str []"
  from f have "\<not> truthy (opt_dot (opt_dot payload ''event'') ''type'')"
    by (auto simp: opt_dot_def)
  then have "parse_and_dispatch pf hs req = ([Json 400 (error_body ''Missing event.type'')], Inr ())"
    using p by (simp add: parse_and_dispatch_def)
  then show ?thesis
    using verify_step_passed [OF a] by (simp add: fusionAuthWebhookRouter_def)
qed

theorem falsy_type_is_malformed_witness:
  \<open>\<not> signature_rejected sample_platform (Some (lit ''k1''))
       \<lparr>signature = Some (lit ''sha256=0215''), body = bytes ''{"event":{"type":""}}''\<rparr> \<and>
   JSON_parse sample_platform (bytes ''{"event":{"type":""}}'') =
     Inr (Obj [(lit ''event'', Obj [(lit ''type'', Str [])])]) \<and>
   fusionAuthWebhookRouter sample_platform (template_handlers sample_platform) (Some (lit ''k1''))
     \<lparr>signature = Some (lit ''sha256=0215''), body = bytes ''{"event":{"type":""}}''\<rparr> =
   ([Json 400 (error_body ''Missing event.type'')], Inr ())\<close>
proof -
  let ?req = \<open>\<lparr>signature = Some (lit ''sha256=0215''), body = bytes ''{"event":{"type":""}}''\<rparr>\<close>
  let ?payload = "Obj [(lit ''event'', Obj [(lit ''type'', Str [])])]"
  have hx: "lit ''sha256='' @ hex [byte_of 2, byte_of 21] = lit ''sha256=0215''"
    by (simp add: hex_digit_def lit_def byte_of_def)
  have k: "length (lit ''k1'') = 2" by (simp add: lit_def)
  have b: \<open>length (bytes ''{"event":{"type":""}}'') = 21\<close> by (simp add: bytes_def)
  have v: \<open>verifyWebhookSignature sample_platform (bytes ''{"event":{"type":""}}'')
      (lit ''sha256=0215'') (lit ''k1'') = Inr True\<close>
    unfolding sample_verify k b hx by simp
  have a: "\<not> signature_rejected sample_platform (Some (lit ''k1'')) ?req"
    by (simp add: signature_rejected_def v) (simp add: lit_def)
  have p: "JSON_parse sample_platform (body ?req) = Inr ?payload"
    by (simp add: sample_defs)
  have f: "nullish (opt_dot ?payload ''event'') \<or>
     getProp (opt_dot ?payload ''event'') ''type'' = Undefined \<or>
     getProp (opt_dot ?payload ''event'') ''type'' = Str []"
    by (simp add: opt_dot_def nullish_def lit_def)
  from falsy_type_is_malformed [OF a p f, of "template_handlers sample_platform", THEN conjunct1]
  show ?thesis using a p by simp
qed

text \<open>
  C10 as stated fails: the signature step comes first, so such a body with a signature that
  does not verify is answered 401.
\<close>

theorem falsy_type_bad_signature_counterexample:
  \<open>fusionAuthWebhookRouter sample_platform (template_handlers sample_platform) (Some (lit ''k1''))
     \<lparr>signature = Some (lit ''sha256=deadbeef''), body = bytes ''{"event":{"type":""}}''\<rparr> =
   ([Console WarnL (lit ''[fusionauth] Webhook signature verification failed''),
     Json 401 (error_body ''Invalid signature'')], Inr ())\<close>
proof -
  have "lit ''sha256=deadbeef'' \<noteq> lit ''sha256='' @ hex [byte_of 2, byte_of 21]"
    by (simp add: lit_def)
  then show ?thesis
    by (simp add: fusionAuthWebhookRouter_def verify_step_def sample_verify invalid_signature_def
        bytes_def) (simp add: lit_def)
qed

end
